theory Spec2Isabelle
  imports Complex_Main "HOL-Library.Char_ord" "HOL-Library.List_Lexorder"
begin

section \<open>Values\<close>

text \<open>
  Python floats are idealised: a finite float is a real number, computed exactly, and
  \<open>NaN\<close> is the one non-number that pandas and numpy use for a missing or undefined
  value. Every comparison with \<open>NaN\<close> is false, as in IEEE arithmetic.
\<close>

datatype fl = Fin real | NaN

fun fl_lt :: "fl \<Rightarrow> real \<Rightarrow> bool" where
  "fl_lt (Fin x) y = (x < y)"
| "fl_lt NaN y = False"

fun fl_gt :: "fl \<Rightarrow> real \<Rightarrow> bool" where
  "fl_gt (Fin x) y = (x > y)"
| "fl_gt NaN y = False"

fun fl_abs :: "fl \<Rightarrow> fl" where
  "fl_abs (Fin x) = Fin \<bar>x\<bar>"
| "fl_abs NaN = NaN"

datatype py_error =
  KeyError | ZeroDivisionError | TypeError | AttributeError | ValueError | DataError

text \<open>The values a record (a Python dict read from JSON or built by the generator) holds.\<close>

datatype pyval = PNone | PBool bool | PInt int | PFloat fl | PStr string

type_synonym py_record = "string \<rightharpoonup> pyval"

text \<open>\<open>isinstance(v, (int, float))\<close>: \<open>bool\<close> is a subclass of \<open>int\<close>.\<close>

fun is_int_or_float :: "pyval \<Rightarrow> bool" where
  "is_int_or_float (PBool b) = True"
| "is_int_or_float (PInt i) = True"
| "is_int_or_float (PFloat x) = True"
| "is_int_or_float v = False"

fun num_of :: "pyval \<Rightarrow> fl" where
  "num_of (PBool b) = Fin (if b then 1 else 0)"
| "num_of (PInt i) = Fin (of_int i)"
| "num_of (PFloat x) = x"
| "num_of v = NaN"

section \<open>DataValidator\<close>

definition REQUIRED_FIELDS :: "string list" where
  "REQUIRED_FIELDS = [''timestamp'', ''heartRate'', ''hrv'', ''activity'']"

definition VALID_ACTIVITIES :: "string list" where
  "VALID_ACTIVITIES = [''resting'', ''walking'', ''exercise'', ''sleeping'']"

text \<open>
  The error message of \<open>validate_record\<close>, one constructor per f-string of the source;
  the interpolated value is the constructor's argument.
\<close>

datatype message =
    Missing_required_field string
  | Invalid_timestamp string
  | Heart_rate_out_of_valid_range pyval
  | Invalid_HRV_value pyval
  | Invalid_activity pyval
  | Temperature_out_of_valid_range pyval

text \<open>
  The loop \<open>for field in REQUIRED_FIELDS: if field not in record: return ...\<close>:
  the first field of the list that the record lacks.
\<close>

fun first_missing :: "string list \<Rightarrow> py_record \<Rightarrow> string option" where
  "first_missing [] record = None"
| "first_missing (field # fs) record =
     (case record field of
        None \<Rightarrow> Some field
      | Some v \<Rightarrow> first_missing fs record)"

text \<open>\<open>record[key]\<close> raises \<open>KeyError\<close> on a key the dict lacks.\<close>

definition getitem :: "py_record \<Rightarrow> string \<Rightarrow> py_error + pyval" where
  "getitem record key = (case record key of None \<Rightarrow> Inl KeyError | Some v \<Rightarrow> Inr v)"

definition bind_err :: "'e + 'a \<Rightarrow> ('a \<Rightarrow> 'e + 'b) \<Rightarrow> 'e + 'b" where
  "bind_err m f = (case m of Inl e \<Rightarrow> Inl e | Inr x \<Rightarrow> f x)"

text \<open>The range test on the optional temperature, lines 60 to 63.\<close>

definition temperature_invalid :: "py_record \<Rightarrow> pyval option" where
  "temperature_invalid record =
     (case record ''temperature'' of
        None \<Rightarrow> None
      | Some temp \<Rightarrow>
          if temp \<noteq> PNone \<and>
             (\<not> is_int_or_float temp \<or> fl_lt (num_of temp) 30 \<or> fl_gt (num_of temp) 45)
          then Some temp else None)"

text \<open>
  \<open>validate_record\<close>. \<open>pd.to_datetime\<close> is the library's parser, a parameter here:
  it returns the instant, or the text of the exception it raises.
\<close>

definition validate_record ::
  "(pyval \<Rightarrow> string + int) \<Rightarrow> py_record \<Rightarrow> py_error + bool \<times> message option" where
  "validate_record to_datetime record =
     (case first_missing REQUIRED_FIELDS record of
        Some field \<Rightarrow> Inr (False, Some (Missing_required_field field))
      | None \<Rightarrow>
          bind_err (getitem record ''timestamp'') (\<lambda>ts.
          case to_datetime ts of
            Inl e \<Rightarrow> Inr (False, Some (Invalid_timestamp e))
          | Inr instant \<Rightarrow>
              bind_err (getitem record ''heartRate'') (\<lambda>hr.
              if \<not> is_int_or_float hr \<or> fl_lt (num_of hr) 30 \<or> fl_gt (num_of hr) 220
              then Inr (False, Some (Heart_rate_out_of_valid_range hr))
              else
                bind_err (getitem record ''hrv'') (\<lambda>hrv.
                if \<not> is_int_or_float hrv \<or> fl_lt (num_of hrv) 0
                then Inr (False, Some (Invalid_HRV_value hrv))
                else
                  bind_err (getitem record ''activity'') (\<lambda>activity.
                  if activity \<notin> PStr ` set VALID_ACTIVITIES
                  then Inr (False, Some (Invalid_activity activity))
                  else
                    (case temperature_invalid record of
                       Some temp \<Rightarrow> Inr (False, Some (Temperature_out_of_valid_range temp))
                     | None \<Rightarrow> Inr (True, None)))))))"

section \<open>DataFrames\<close>

text \<open>
  A pandas DataFrame, column by column as pandas stores it: the row count and the
  columns in their order, each a typed series. A numeric column holds floats (integer
  columns are numbers too; \<open>NaN\<close> is a missing value), an object column holds strings, a
  datetime column holds instants in seconds (what \<open>load_data\<close> makes of
  \<open>timestamp\<close>).
\<close>

datatype series = NumCol "fl list" | ObjCol "string list" | TimeCol "int list"

datatype cell = CNum fl | CStr string | CTime int

fun cells :: "series \<Rightarrow> cell list" where
  "cells (NumCol xs) = map CNum xs"
| "cells (ObjCol ss) = map CStr ss"
| "cells (TimeCol ts) = map CTime ts"

fun series_len :: "series \<Rightarrow> nat" where
  "series_len (NumCol xs) = length xs"
| "series_len (ObjCol ss) = length ss"
| "series_len (TimeCol ts) = length ts"

record dataframe =
  nrows :: nat
  cols :: "(string \<times> series) list"

text \<open>Every column has one value per row, and no two columns share a name.\<close>

definition wf_frame :: "dataframe \<Rightarrow> bool" where
  "wf_frame df =
     (distinct (map fst (cols df)) \<and> list_all (\<lambda>c. series_len (snd c) = nrows df) (cols df))"

text \<open>\<open>df[name]\<close> (None: the \<open>KeyError\<close>) and \<open>name in df.columns\<close>.\<close>

definition column :: "dataframe \<Rightarrow> string \<Rightarrow> series option" where
  "column df name = map_of (cols df) name"

text \<open>
  \<open>df[name] = values\<close>: an existing column is replaced where it stands, a new one is
  appended after the others.
\<close>

fun set_col :: "string \<Rightarrow> series \<Rightarrow> (string \<times> series) list \<Rightarrow> (string \<times> series) list" where
  "set_col name s [] = [(name, s)]"
| "set_col name s (c # cs) = (if fst c = name then (name, s) # cs else c # set_col name s cs)"

definition setitem :: "dataframe \<Rightarrow> string \<Rightarrow> series \<Rightarrow> dataframe" where
  "setitem df name s = df\<lparr>cols := set_col name s (cols df)\<rparr>"

subsection \<open>Reductions\<close>

fun dropna :: "fl list \<Rightarrow> real list" where
  "dropna [] = []"
| "dropna (Fin x # xs) = x # dropna xs"
| "dropna (NaN # xs) = dropna xs"

definition mean_of :: "real list \<Rightarrow> real" where
  "mean_of v = sum_list v / real (length v)"

text \<open>The sum of the squared deviations from the mean.\<close>

definition sum_sq_dev :: "real list \<Rightarrow> real" where
  "sum_sq_dev v = (\<Sum>x\<leftarrow>v. (x - mean_of v)\<^sup>2)"

text \<open>
  The pandas reductions \<open>Series.mean\<close>, \<open>std\<close>, \<open>min\<close>, \<open>max\<close>, \<open>quantile\<close> and
  \<open>median\<close>: missing values are skipped, \<open>std\<close> divides by \<open>n - 1\<close>, and a reduction
  with too few values is \<open>NaN\<close>.
\<close>

definition pd_mean :: "fl list \<Rightarrow> fl" where
  "pd_mean xs = (let v = dropna xs in if v = [] then NaN else Fin (mean_of v))"

definition pd_std :: "fl list \<Rightarrow> fl" where
  "pd_std xs =
     (let v = dropna xs in
      if length v \<le> 1 then NaN else Fin (sqrt (sum_sq_dev v / real (length v - 1))))"

definition pd_min :: "fl list \<Rightarrow> fl" where
  "pd_min xs = (let v = dropna xs in if v = [] then NaN else Fin (Min (set v)))"

definition pd_max :: "fl list \<Rightarrow> fl" where
  "pd_max xs = (let v = dropna xs in if v = [] then NaN else Fin (Max (set v)))"

definition pd_quantile :: "real \<Rightarrow> fl list \<Rightarrow> fl" where
  "pd_quantile q xs =
     (let v = sort (dropna xs) in
      if v = [] then NaN
      else
        let pos = q * real (length v - 1);
            lo = nat \<lfloor>pos\<rfloor>;
            hi = min (lo + 1) (length v - 1)
        in Fin (v ! lo + (v ! hi - v ! lo) * (pos - real lo)))"

definition pd_median :: "fl list \<Rightarrow> fl" where
  "pd_median xs = pd_quantile (1 / 2) xs"

text \<open>
  \<open>scipy.stats.zscore(a)\<close> with its defaults \<open>ddof=0\<close> and
  \<open>nan_policy='propagate'\<close>: \<open>(a - a.mean()) / a.std(ddof=0)\<close>, the numpy mean and the
  standard deviation with denominator \<open>n\<close>. A missing value makes the mean and so every
  score \<open>NaN\<close>. A standard deviation of zero means that every value equals the mean, and
  the score \<open>0 / 0\<close> is \<open>NaN\<close>.
\<close>

definition np_mean :: "fl list \<Rightarrow> fl" where
  "np_mean a = (if NaN \<in> set a \<or> a = [] then NaN else Fin (mean_of (dropna a)))"

definition np_std :: "nat \<Rightarrow> fl list \<Rightarrow> fl" where
  "np_std ddof a =
     (if NaN \<in> set a \<or> length a \<le> ddof then NaN
      else Fin (sqrt (sum_sq_dev (dropna a) / real (length a - ddof))))"

fun np_standardize :: "fl \<Rightarrow> fl \<Rightarrow> fl \<Rightarrow> fl" where
  "np_standardize (Fin mn) (Fin sd) (Fin x) = (if sd = 0 then NaN else Fin ((x - mn) / sd))"
| "np_standardize mn sd x = NaN"

definition zscore :: "fl list \<Rightarrow> fl list" where
  "zscore a = map (np_standardize (np_mean a) (np_std 0 a)) a"

subsection \<open>Row selection and sorting\<close>

text \<open>\<open>df[mask]\<close>: the rows where the boolean mask holds, in their order.\<close>

definition select_rows :: "bool list \<Rightarrow> 'a list \<Rightarrow> 'a list" where
  "select_rows keep xs = map snd (filter fst (zip keep xs))"

fun select_series :: "bool list \<Rightarrow> series \<Rightarrow> series" where
  "select_series keep (NumCol xs) = NumCol (select_rows keep xs)"
| "select_series keep (ObjCol ss) = ObjCol (select_rows keep ss)"
| "select_series keep (TimeCol ts) = TimeCol (select_rows keep ts)"

definition boolean_mask :: "bool list \<Rightarrow> dataframe \<Rightarrow> dataframe" where
  "boolean_mask keep df =
     \<lparr>nrows = length (filter id keep),
      cols = map (\<lambda>c. (fst c, select_series keep (snd c))) (cols df)\<rparr>"

text \<open>
  \<open>df.sort_values(by)\<close>: the rows in ascending order of the key column, missing keys
  last. Rows with equal keys keep their order (the sort is taken to be stable).
\<close>

definition argsort :: "('k::linorder) list \<Rightarrow> nat list" where
  "argsort ks = sort_key (\<lambda>i. ks ! i) [0..<length ks]"

fun fin_val :: "fl \<Rightarrow> real" where
  "fin_val (Fin x) = x"
| "fin_val NaN = 0"

definition argsort_na :: "fl list \<Rightarrow> nat list" where
  "argsort_na xs =
     sort_key (\<lambda>i. fin_val (xs ! i)) (filter (\<lambda>i. xs ! i \<noteq> NaN) [0..<length xs])
     @ filter (\<lambda>i. xs ! i = NaN) [0..<length xs]"

fun sort_order :: "series \<Rightarrow> nat list" where
  "sort_order (NumCol xs) = argsort_na xs"
| "sort_order (ObjCol ss) = argsort ss"
| "sort_order (TimeCol ts) = argsort ts"

definition take_rows :: "nat list \<Rightarrow> 'a list \<Rightarrow> 'a list" where
  "take_rows idx xs = map (\<lambda>i. xs ! i) idx"

fun take_series :: "nat list \<Rightarrow> series \<Rightarrow> series" where
  "take_series idx (NumCol xs) = NumCol (take_rows idx xs)"
| "take_series idx (ObjCol ss) = ObjCol (take_rows idx ss)"
| "take_series idx (TimeCol ts) = TimeCol (take_rows idx ts)"

definition sort_values :: "string \<Rightarrow> dataframe \<Rightarrow> py_error + dataframe" where
  "sort_values by df =
     (case column df by of
        None \<Rightarrow> Inl KeyError
      | Some key \<Rightarrow>
          Inr (df\<lparr>cols := map (\<lambda>c. (fst c, take_series (sort_order key) (snd c))) (cols df)\<rparr>))"

section \<open>analyze_data\<close>

text \<open>The Analysis Report: the dict \<open>results\<close>, one record per nested dict.\<close>

record date_range_block =
  start_ts :: "int option"
  end_ts :: "int option"
  duration_hours :: fl

record summary_block =
  total_records :: nat
  columns :: "string list"
  date_range :: "date_range_block option"

record column_statistics =
  mean :: fl
  median :: fl
  std :: fl
  minimum :: fl
  maximum :: fl
  q25 :: fl
  q75 :: fl

record anomaly_record =
  timestamp :: cell
  heartRate :: cell
  hr_zscore :: cell

record anomaly_block =
  count :: nat
  percentage :: real
  threshold :: real
  records :: "anomaly_record list"

record activity_entry =
  activity :: cell
  activity_count :: nat
  activity_percentage :: real

record activity_hr_statistics =
  mean_hr :: fl
  std_hr :: fl
  min_hr :: fl
  max_hr :: fl

text \<open>
  An empty dict \<open>{}\<close> for \<open>anomalies\<close> is \<open>None\<close>, for \<open>activity_breakdown\<close> the empty
  list; \<open>activity_stats\<close> is \<open>None\<close> when the key is not set.
\<close>

record report =
  summary :: summary_block
  statistics :: "(string \<times> column_statistics) list"
  anomalies :: "anomaly_block option"
  activity_breakdown :: "activity_entry list"
  activity_stats :: "(cell \<times> activity_hr_statistics) list option"

text \<open>
  Lines 69 to 74. The minimum of an empty datetime column is \<open>NaT\<close>, and so are the
  difference and its \<open>total_seconds()\<close>. A column that is not a datetime column has no
  \<open>total_seconds\<close> on the difference of its extremes, or no difference at all.
\<close>

definition date_range_of :: "dataframe \<Rightarrow> py_error + date_range_block option" where
  "date_range_of df =
     (case column df ''timestamp'' of
        None \<Rightarrow> Inr None
      | Some (TimeCol ts) \<Rightarrow>
          if ts = [] then Inr (Some \<lparr>start_ts = None, end_ts = None, duration_hours = NaN\<rparr>)
          else Inr (Some \<lparr>start_ts = Some (Min (set ts)), end_ts = Some (Max (set ts)),
                          duration_hours = Fin (real_of_int (Max (set ts) - Min (set ts)) / 3600)\<rparr>)
      | Some (NumCol xs) \<Rightarrow> Inl AttributeError
      | Some (ObjCol ss) \<Rightarrow> if ss = [] then Inl AttributeError else Inl TypeError)"

text \<open>Lines 77 to 87: the seven statistics of every numeric column.\<close>

definition describe :: "fl list \<Rightarrow> column_statistics" where
  "describe xs =
     \<lparr>mean = pd_mean xs, median = pd_median xs, std = pd_std xs,
      minimum = pd_min xs, maximum = pd_max xs,
      q25 = pd_quantile (1 / 4) xs, q75 = pd_quantile (3 / 4) xs\<rparr>"

fun numeric_statistics :: "(string \<times> series) list \<Rightarrow> (string \<times> column_statistics) list" where
  "numeric_statistics [] = []"
| "numeric_statistics ((name, NumCol xs) # cs) = (name, describe xs) # numeric_statistics cs"
| "numeric_statistics (c # cs) = numeric_statistics cs"

text \<open>
  \<open>anomalies[['timestamp', 'heartRate', 'hr_zscore']].to_dict('records')\<close>: one dict
  per selected row; \<open>KeyError\<close> when one of the three columns is not in the frame.
\<close>

definition anomaly_records :: "dataframe \<Rightarrow> py_error + anomaly_record list" where
  "anomaly_records sel =
     (case (column sel ''timestamp'', column sel ''heartRate'', column sel ''hr_zscore'') of
        (Some t, Some h, Some z) \<Rightarrow>
          Inr (map (\<lambda>(a, b, c). \<lparr>timestamp = a, heartRate = b, hr_zscore = c\<rparr>)
                 (zip (cells t) (zip (cells h) (cells z))))
      | _ \<Rightarrow> Inl KeyError)"

text \<open>
  Lines 90 to 100, with the frame passed through: line 91 assigns the column
  \<open>hr_zscore\<close> on the caller's frame, so the frame after the step is part of the
  result, also when a later line raises. \<open>len(anomalies) / len(df)\<close> divides two Python
  integers and raises \<open>ZeroDivisionError\<close> on a frame with no rows; the list of records
  is built only when there is an anomaly.
\<close>

definition detect_anomalies :: "dataframe \<Rightarrow> (py_error + anomaly_block option) \<times> dataframe" where
  "detect_anomalies df =
     (case column df ''heartRate'' of
        None \<Rightarrow> (Inr None, df)
      | Some (NumCol hr) \<Rightarrow>
          let z = map fl_abs (zscore hr);
              df1 = setitem df ''hr_zscore'' (NumCol z);
              anomaly_threshold = 2;
              sel = boolean_mask (map (\<lambda>v. fl_gt v anomaly_threshold) z) df1
          in if nrows df1 = 0 then (Inl ZeroDivisionError, df1)
             else if nrows sel > 0 then
               (case anomaly_records sel of
                  Inl e \<Rightarrow> (Inl e, df1)
                | Inr rs \<Rightarrow>
                    (Inr (Some \<lparr>count = nrows sel,
                                percentage = real (nrows sel) / real (nrows df1) * 100,
                                threshold = anomaly_threshold, records = rs\<rparr>), df1))
             else
               (Inr (Some \<lparr>count = nrows sel,
                           percentage = real (nrows sel) / real (nrows df1) * 100,
                           threshold = anomaly_threshold, records = []\<rparr>), df1)
      | Some other \<Rightarrow> (Inl TypeError, df))"

text \<open>
  \<open>Series.value_counts()\<close>: the distinct values, missing ones dropped, with the number
  of rows holding each, the most frequent first. pandas counts the values in the order
  it meets them and then sorts by descending count; values with equal counts are taken
  to keep the order of first appearance.
\<close>

definition uniques :: "'a list \<Rightarrow> 'a list" where
  "uniques xs = rev (remdups (rev xs))"

definition value_counts :: "cell list \<Rightarrow> (cell \<times> nat) list" where
  "value_counts xs =
     (let present = filter (\<lambda>c. c \<noteq> CNum NaN) xs
      in sort_key (\<lambda>kc. - int (snd kc)) (map (\<lambda>k. (k, count_list present k)) (uniques present)))"

text \<open>Lines 104 to 111.\<close>

definition activity_breakdown_of :: "dataframe \<Rightarrow> series \<Rightarrow> activity_entry list" where
  "activity_breakdown_of df act =
     map (\<lambda>(a, c). \<lparr>activity = a, activity_count = c,
                     activity_percentage = real c / real (nrows df) * 100\<rparr>)
       (value_counts (cells act))"

text \<open>
  Line 115, \<open>df.groupby('activity')['heartRate'].agg(['mean', 'std', 'min', 'max'])\<close>:
  one row per distinct activity, the groups in ascending order of their key.
\<close>

fun group_keys :: "series \<Rightarrow> cell list" where
  "group_keys (NumCol xs) = map (\<lambda>x. CNum (Fin x)) (sort (remdups (dropna xs)))"
| "group_keys (ObjCol ss) = map CStr (sort (remdups ss))"
| "group_keys (TimeCol ts) = map CTime (sort (remdups ts))"

definition group_values :: "cell list \<Rightarrow> fl list \<Rightarrow> cell \<Rightarrow> fl list" where
  "group_values keys vals k = map snd (filter (\<lambda>kv. fst kv = k) (zip keys vals))"

definition activity_stats_of :: "series \<Rightarrow> fl list \<Rightarrow> (cell \<times> activity_hr_statistics) list" where
  "activity_stats_of act hr =
     map (\<lambda>k. let g = group_values (cells act) hr k
              in (k, \<lparr>mean_hr = pd_mean g, std_hr = pd_std g, min_hr = pd_min g, max_hr = pd_max g\<rparr>))
       (group_keys act)"

text \<open>
  \<open>analyze_data\<close>: the report or the exception raised, and the caller's frame as the
  call leaves it. The summary and the statistics are computed before line 91, on the
  frame as it was passed.
\<close>

definition analyze_data :: "dataframe \<Rightarrow> (py_error + report) \<times> dataframe" where
  "analyze_data df =
     (case date_range_of df of
        Inl e \<Rightarrow> (Inl e, df)
      | Inr dr \<Rightarrow>
          let summ = \<lparr>total_records = nrows df, columns = map fst (cols df), date_range = dr\<rparr>;
              stats = numeric_statistics (cols df)
          in case detect_anomalies df of
               (Inl e, df1) \<Rightarrow> (Inl e, df1)
             | (Inr an, df1) \<Rightarrow>
                 (case column df1 ''activity'' of
                    None \<Rightarrow>
                      (Inr \<lparr>summary = summ, statistics = stats, anomalies = an,
                            activity_breakdown = [], activity_stats = None\<rparr>, df1)
                  | Some act \<Rightarrow>
                      (case column df1 ''heartRate'' of
                         None \<Rightarrow>
                           (Inr \<lparr>summary = summ, statistics = stats, anomalies = an,
                                 activity_breakdown = activity_breakdown_of df1 act,
                                 activity_stats = None\<rparr>, df1)
                       | Some (NumCol hr) \<Rightarrow>
                           (Inr \<lparr>summary = summ, statistics = stats, anomalies = an,
                                 activity_breakdown = activity_breakdown_of df1 act,
                                 activity_stats = Some (activity_stats_of act hr)\<rparr>, df1)
                       | Some other \<Rightarrow> (Inl TypeError, df1))))"

text \<open>
  The z-score in the words of the specification, to compare with \<open>zscore\<close>:
  \<open>(h - mean) / std\<close> over the whole column, the standard deviation with
  denominator \<open>n - ddof\<close> (\<open>ddof = 1\<close> is the sample estimator, \<open>ddof = 0\<close> the
  population one). Where the deviation is zero the quotient is \<open>0\<close> here, which never
  exceeds a threshold.
\<close>

definition zscore_spec :: "nat \<Rightarrow> real list \<Rightarrow> real \<Rightarrow> real" where
  "zscore_spec ddof hs h =
     (h - mean_of hs) / sqrt (sum_sq_dev hs / real (length hs - ddof))"


text \<open>The report a call returned, if it returned one.\<close>

definition report_of :: "(py_error + report) \<times> dataframe \<Rightarrow> report option" where
  "report_of res = (case fst res of Inl e \<Rightarrow> None | Inr r \<Rightarrow> Some r)"

section \<open>DataProcessor\<close>

text \<open>
  Both functions start with \<open>df = df.copy()\<close> and sort by \<open>timestamp\<close> when the frame
  has that column: they return a new frame and leave the argument alone.
\<close>

definition sort_by_timestamp :: "dataframe \<Rightarrow> dataframe" where
  "sort_by_timestamp df =
     (case sort_values ''timestamp'' df of Inl e \<Rightarrow> df | Inr sorted_df \<Rightarrow> sorted_df)"












section \<open>SyntheticDataGenerator\<close>

text \<open>
  numpy's global random generator: its state is a value of some type \<open>'s\<close>, and each
  call returns the draw and the state it leaves behind. \<open>seed\<close> is \<open>np.random.seed\<close>,
  which replaces the state; \<open>normal\<close> takes the mean and the scale, \<open>choice\<close> the
  options and their probabilities, \<open>randint\<close> the bounds \<open>low\<close> (inclusive) and \<open>high\<close>
  (exclusive).
\<close>

record 's np_random =
  seed :: "int \<Rightarrow> 's"
  normal :: "real \<Rightarrow> real \<Rightarrow> 's \<Rightarrow> real \<times> 's"
  choice :: "string list \<Rightarrow> real list \<Rightarrow> 's \<Rightarrow> string \<times> 's"
  randint :: "int \<Rightarrow> int \<Rightarrow> 's \<Rightarrow> int \<times> 's"

text \<open>\<open>np.random.normal(loc, scale)\<close> raises \<open>ValueError\<close> on a negative scale.\<close>

definition np_normal :: "'s np_random \<Rightarrow> real \<Rightarrow> real \<Rightarrow> 's \<Rightarrow> py_error + real \<times> 's" where
  "np_normal R loc scale g = (if scale < 0 then Inl ValueError else Inr (normal R loc scale g))"

text \<open>
  A naive \<open>datetime\<close> at the resolution of a second: the seconds on the calendar clock,
  counted from a midnight. \<open>timestamp.hour\<close> is the hour of the day.
\<close>

type_synonym datetime = int

definition hour_of :: "datetime \<Rightarrow> int" where
  "hour_of t = (t div 3600) mod 24"

text \<open>\<open>int(x)\<close> on a float truncates towards zero.\<close>

definition py_int :: "real \<Rightarrow> int" where
  "py_int x = (if 0 \<le> x then \<lfloor>x\<rfloor> else \<lceil>x\<rceil>)"

text \<open>
  Lines 206 to 236: the activity, the heart rate and the HRV of one record before the
  global noise, by the hour. The scales are positive constants, so these draws do not
  raise.
\<close>

definition daily_regime ::
  "'s np_random \<Rightarrow> int \<Rightarrow> int \<Rightarrow> 's \<Rightarrow> (string \<times> real \<times> real) \<times> 's" where
  "daily_regime R hour base_hr g =
     (if 0 \<le> hour \<and> hour < 6 then
        (case normal R 0 3 g of (a, g1) \<Rightarrow>
         case normal R 0 10 g1 of (b, g2) \<Rightarrow>
           ((''sleeping'', real_of_int base_hr - 20 + a, 70 + b), g2))
      else if 6 \<le> hour \<and> hour < 8 then
        (case normal R 0 5 g of (a, g1) \<Rightarrow>
         case normal R 0 8 g1 of (b, g2) \<Rightarrow>
           ((''resting'', real_of_int base_hr - 10 + a, 60 + b), g2))
      else if 8 \<le> hour \<and> hour < 12 then
        (case choice R [''walking'', ''resting'', ''exercise''] [5 / 10, 4 / 10, 1 / 10] g of
           (act, g1) \<Rightarrow>
             if act = ''exercise'' then
               (case normal R 0 10 g1 of (a, g2) \<Rightarrow>
                case normal R 0 5 g2 of (b, g3) \<Rightarrow>
                  ((act, real_of_int base_hr + 40 + a, 30 + b), g3))
             else if act = ''walking'' then
               (case normal R 0 8 g1 of (a, g2) \<Rightarrow>
                case normal R 0 8 g2 of (b, g3) \<Rightarrow>
                  ((act, real_of_int base_hr + 15 + a, 45 + b), g3))
             else
               (case normal R 0 5 g1 of (a, g2) \<Rightarrow>
                case normal R 0 8 g2 of (b, g3) \<Rightarrow>
                  ((act, real_of_int base_hr + a, 55 + b), g3)))
      else if 12 \<le> hour \<and> hour < 18 then
        (case choice R [''walking'', ''resting''] [6 / 10, 4 / 10] g of
           (act, g1) \<Rightarrow>
             case normal R 0 8 g1 of (a, g2) \<Rightarrow>
             case normal R 0 10 g2 of (b, g3) \<Rightarrow>
               ((act, real_of_int base_hr + (if act = ''walking'' then 10 else 0) + a, 50 + b), g3))
      else if 18 \<le> hour \<and> hour < 22 then
        (case normal R 0 5 g of (a, g1) \<Rightarrow>
         case normal R 0 8 g1 of (b, g2) \<Rightarrow>
           ((''resting'', real_of_int base_hr - 5 + a, 55 + b), g2))
      else
        (case normal R 0 3 g of (a, g1) \<Rightarrow>
         case normal R 0 8 g1 of (b, g2) \<Rightarrow>
           ((''sleeping'', real_of_int base_hr - 15 + a, 65 + b), g2)))"

text \<open>
  One turn of the loop of \<open>generate_daily_pattern\<close>, lines 202 to 251.
  \<open>datetime.isoformat\<close> is the library's, a parameter.
\<close>

definition daily_record ::
  "'s np_random \<Rightarrow> (datetime \<Rightarrow> string) \<Rightarrow> datetime \<Rightarrow> int \<Rightarrow> real \<Rightarrow> int \<Rightarrow> 's
     \<Rightarrow> py_error + py_record \<times> 's" where
  "daily_record R isoformat date base_hr noise_level i g =
     (let ts = date + 1800 * i in
      case daily_regime R (hour_of ts) base_hr g of
        ((act, hr, hrv), g1) \<Rightarrow>
          (case np_normal R 0 noise_level g1 of
             Inl e \<Rightarrow> Inl e
           | Inr (noise, g2) \<Rightarrow>
               Inr ([''timestamp'' \<mapsto> PStr (isoformat ts),
                     ''heartRate'' \<mapsto> PInt (max 40 (min 200 (py_int (hr + noise)))),
                     ''hrv'' \<mapsto> PInt (max 10 (py_int hrv)),
                     ''activity'' \<mapsto> PStr act,
                     ''device'' \<mapsto> PStr ''Synthetic Generator''], g2)))"

fun daily_loop ::
  "'s np_random \<Rightarrow> (datetime \<Rightarrow> string) \<Rightarrow> datetime \<Rightarrow> int \<Rightarrow> real \<Rightarrow> int list \<Rightarrow> 's
     \<Rightarrow> py_error + py_record list \<times> 's" where
  "daily_loop R isoformat date base_hr noise_level [] g = Inr ([], g)"
| "daily_loop R isoformat date base_hr noise_level (i # rest) g =
     (case daily_record R isoformat date base_hr noise_level i g of
        Inl e \<Rightarrow> Inl e
      | Inr (r, g1) \<Rightarrow>
          (case daily_loop R isoformat date base_hr noise_level rest g1 of
             Inl e \<Rightarrow> Inl e
           | Inr (rs, g2) \<Rightarrow> Inr (r # rs, g2)))"

text \<open>
  \<open>generate_daily_pattern\<close>. \<open>epoch_seconds date\<close> stands for
  \<open>int(date.timestamp())\<close>, which depends on the local time zone; the state \<open>g\<close> the
  generator is in at the call is replaced by the seeded one. The result is the list of
  records and the state the call leaves behind, or the exception.
\<close>

definition generate_daily_pattern ::
  "'s np_random \<Rightarrow> (datetime \<Rightarrow> int) \<Rightarrow> (datetime \<Rightarrow> string) \<Rightarrow> datetime \<Rightarrow> int \<Rightarrow> int \<Rightarrow> real
     \<Rightarrow> 's \<Rightarrow> py_error + py_record list \<times> 's" where
  "generate_daily_pattern R epoch_seconds isoformat date num_records base_hr noise_level g =
     daily_loop R isoformat date base_hr noise_level (map int [0..<nat num_records])
       (seed R (epoch_seconds date mod 1000))"

text \<open>
  One turn of the loop of \<open>generate_tpp_episode\<close>, lines 275 to 301. \<open>randint\<close> with
  \<open>low < high\<close> does not raise.
\<close>

definition episode_record ::
  "'s np_random \<Rightarrow> (datetime \<Rightarrow> string) \<Rightarrow> datetime \<Rightarrow> int \<Rightarrow> int \<Rightarrow> 's \<Rightarrow> py_record \<times> 's" where
  "episode_record R isoformat start_time num_records i g =
     (let ts = start_time + 300 * i;
          progress = real_of_int i / real_of_int num_records;
          device = PStr ''TPP Episode Simulator''
      in if progress < 3 / 10 then
           ([''timestamp'' \<mapsto> PStr (isoformat ts),
             ''heartRate'' \<mapsto> PInt (45 + py_int (15 * (1 - progress / (3 / 10)))),
             ''hrv'' \<mapsto> PInt (20 + py_int (10 * progress / (3 / 10))),
             ''activity'' \<mapsto> PStr ''resting'', ''device'' \<mapsto> device], g)
         else if progress < 7 / 10 then
           (case randint R (- 5) 5 g of (a, g1) \<Rightarrow>
            case randint R (- 3) 3 g1 of (b, g2) \<Rightarrow>
              ([''timestamp'' \<mapsto> PStr (isoformat ts),
                ''heartRate'' \<mapsto> PInt (40 + a),
                ''hrv'' \<mapsto> PInt (15 + b),
                ''activity'' \<mapsto> PStr ''resting'', ''device'' \<mapsto> device], g2))
         else
           (let recovery_progress = (progress - 7 / 10) / (3 / 10) in
            ([''timestamp'' \<mapsto> PStr (isoformat ts),
              ''heartRate'' \<mapsto> PInt (45 + py_int (25 * recovery_progress)),
              ''hrv'' \<mapsto> PInt (20 + py_int (30 * recovery_progress)),
              ''activity'' \<mapsto> PStr ''resting'', ''device'' \<mapsto> device], g)))"

fun episode_loop ::
  "'s np_random \<Rightarrow> (datetime \<Rightarrow> string) \<Rightarrow> datetime \<Rightarrow> int \<Rightarrow> int list \<Rightarrow> 's
     \<Rightarrow> py_record list \<times> 's" where
  "episode_loop R isoformat start_time num_records [] g = ([], g)"
| "episode_loop R isoformat start_time num_records (i # rest) g =
     (case episode_record R isoformat start_time num_records i g of
        (r, g1) \<Rightarrow>
          (case episode_loop R isoformat start_time num_records rest g1 of
             (rs, g2) \<Rightarrow> (r # rs, g2)))"

text \<open>
  \<open>generate_tpp_episode\<close>: no call to \<open>np.random.seed\<close>; the draws start from the
  state \<open>g\<close> the generator is in at the call.
\<close>

definition generate_tpp_episode ::
  "'s np_random \<Rightarrow> (datetime \<Rightarrow> string) \<Rightarrow> datetime \<Rightarrow> int \<Rightarrow> 's \<Rightarrow> py_record list \<times> 's" where
  "generate_tpp_episode R isoformat start_time duration_minutes g =
     (let num_records = duration_minutes div 5
      in episode_loop R isoformat start_time num_records (map int [0..<nat num_records]) g)"

text \<open>
  A small generator to run the functions on: the state is a counter, a draw is read
  off the counter and advances it.
\<close>

definition counter_random :: "nat np_random" where
  "counter_random =
     \<lparr>seed = (\<lambda>n. nat n),
      normal = (\<lambda>loc scale g. (loc + scale * (real (g mod 7) - 3) / 3, Suc g)),
      choice = (\<lambda>opts p g. (opts ! (g mod length opts), Suc g)),
      randint = (\<lambda>low high g. (low + int g mod (high - low), Suc g))\<rparr>"

text \<open>
  What the generators rely on from the library: \<open>np.random.choice\<close> returns one of
  the options it is given.
\<close>

definition choice_in_options :: "'s np_random \<Rightarrow> bool" where
  "choice_in_options R = (\<forall>opts p g. opts \<noteq> [] \<longrightarrow> fst (choice R opts p g) \<in> set opts)"

section \<open>Frames: columns, sorting, differences\<close>


lemma map_of_set_col_other: "name' \<noteq> name \<Longrightarrow> map_of (set_col name s cs) name' = map_of cs name'"
  by (induction cs) auto


lemma column_setitem_other:
  "name' \<noteq> name \<Longrightarrow> column (setitem df name s) name' = column df name'"
  by (simp add: column_def setitem_def map_of_set_col_other)

lemma nrows_setitem: "nrows (setitem df name s) = nrows df"
  by (simp add: setitem_def)

lemma column_len: "wf_frame df \<Longrightarrow> column df name = Some s \<Longrightarrow> series_len s = nrows df"
  by (auto simp: wf_frame_def column_def list_all_iff dest!: map_of_SomeD)












section \<open>Properties of the validator\<close>

lemma first_missing_Some:
  "first_missing fs record = Some f \<Longrightarrow>
     f \<in> set fs \<and> record f = None \<and>
     (\<forall>g \<in> set (takeWhile (\<lambda>g. g \<noteq> f) fs). record g \<noteq> None)"
  by (induction fs) (auto split: option.splits)

lemma first_missing_None:
  "(first_missing fs record = None) = (\<forall>f \<in> set fs. record f \<noteq> None)"
  by (induction fs) (auto split: option.splits)

lemma first_missing_dom:
  "dom record' = dom record \<Longrightarrow> first_missing fs record' = first_missing fs record"
proof (induction fs)
  case Nil
  show ?case by simp
next
  case (Cons f fs)
  have "(record' f = None) = (record f = None)"
    using Cons.prems by (metis domIff)
  with Cons show ?case by (auto split: option.splits)
qed

text \<open>
  C7. A record that lacks a required field is invalid; the message names the first
  field of \<open>REQUIRED_FIELDS\<close> that is missing (every field before it is present), and
  the result is the same for every record with the same keys and for every timestamp
  parser: no value of the record is looked at.
\<close>

theorem validate_record_missing_field:
  assumes "\<exists>f \<in> set REQUIRED_FIELDS. record f = None"
  shows "\<exists>f. validate_record to_datetime record = Inr (False, Some (Missing_required_field f))
           \<and> f \<in> set REQUIRED_FIELDS \<and> record f = None
           \<and> (\<forall>g \<in> set (takeWhile (\<lambda>g. g \<noteq> f) REQUIRED_FIELDS). record g \<noteq> None)
           \<and> (\<forall>record' to_datetime'. dom record' = dom record \<longrightarrow>
                 validate_record to_datetime' record' = validate_record to_datetime record)"
proof -
  from assms obtain f where f: "first_missing REQUIRED_FIELDS record = Some f"
    using first_missing_None [of REQUIRED_FIELDS "record"] by fastforce
  have res: "validate_record td r = Inr (False, Some (Missing_required_field f))"
    if "dom r = dom record" for td r
    using f first_missing_dom [OF that, of REQUIRED_FIELDS]
    by (simp add: validate_record_def)
  from res [of "record" to_datetime] res first_missing_Some [OF f]
  show ?thesis by auto
qed

theorem validate_record_missing_field_witness:
  "validate_record (\<lambda>v. Inl ''unparsable'')
     [''timestamp'' \<mapsto> PStr ''2024-01-01T00:00:00'', ''hrv'' \<mapsto> PInt (- 5)]
   = Inr (False, Some (Missing_required_field ''heartRate''))"
proof -
  let ?r = "[''timestamp'' \<mapsto> PStr ''2024-01-01T00:00:00'', ''hrv'' \<mapsto> PInt (- 5)]"
  have h: "\<exists>f \<in> set REQUIRED_FIELDS. ?r f = None"
    by (simp add: REQUIRED_FIELDS_def)
  from validate_record_missing_field [OF h, of "\<lambda>v. Inl ''unparsable''"]
  obtain f where f: "validate_record (\<lambda>v. Inl ''unparsable'') ?r
        = Inr (False, Some (Missing_required_field f))" and "?r f = None"
    by blast
  have "first_missing REQUIRED_FIELDS ?r = Some ''heartRate''"
    by (simp add: REQUIRED_FIELDS_def)
  then have "validate_record (\<lambda>v. Inl ''unparsable'') ?r
        = Inr (False, Some (Missing_required_field ''heartRate''))"
    by (simp add: validate_record_def)
  with f show ?thesis by simp
qed

section \<open>Rapid changes\<close>



section \<open>Rolling statistics\<close>











lemma nrows_sort_by_timestamp: "nrows (sort_by_timestamp df) = nrows df"
  by (simp add: sort_by_timestamp_def sort_values_def split: option.splits)





section \<open>Anomaly detection and the report\<close>

lemma dropna_fin: "dropna (map Fin hs) = hs"
  by (induction hs) auto

lemma nan_notin_fin: "NaN \<notin> set (map Fin hs)"
  by auto

lemma zscore_fin:
  "hs \<noteq> [] \<Longrightarrow>
   map (\<lambda>v. fl_gt v 2) (map fl_abs (zscore (map Fin hs)))
   = map (\<lambda>h. 2 < \<bar>zscore_spec 0 hs h\<bar>) hs"
  by (auto simp: zscore_def np_mean_def np_std_def dropna_fin zscore_spec_def)









lemma detect_anomalies_frame:
  assumes "detect_anomalies df = (res, df1)"
  shows "nrows df1 = nrows df"
    and "name \<noteq> ''hr_zscore'' \<Longrightarrow> column df1 name = column df name"
  using assms
  by (auto simp: detect_anomalies_def Let_def nrows_setitem column_setitem_other
      split: option.splits series.splits sum.splits if_splits)

lemma detect_anomalies_heartRate:
  assumes "detect_anomalies df = (Inr an, df1)"
  shows "column df ''heartRate'' = None \<or> (\<exists>xs. column df ''heartRate'' = Some (NumCol xs))"
  using assms
  by (auto simp: detect_anomalies_def split: option.splits series.splits)

lemma analyze_data_report:
  assumes dr: "date_range_of df = Inr dr" and da: "detect_anomalies df = (Inr an, df1)"
  shows "\<exists>r. analyze_data df = (Inr r, df1) \<and> anomalies r = an
             \<and> activity_breakdown r =
                 (case column df ''activity'' of
                    None \<Rightarrow> [] | Some act \<Rightarrow> activity_breakdown_of df1 act)"
proof -
  have a: "column df1 ''activity'' = column df ''activity''"
    and h: "column df1 ''heartRate'' = column df ''heartRate''"
    using detect_anomalies_frame(2) [OF da] by simp_all
  from detect_anomalies_heartRate [OF da] show ?thesis
    by (auto simp: analyze_data_def dr da a h Let_def split: option.splits)
qed

lemma analyze_data_returns:
  assumes "fst (analyze_data df) = Inr r"
  shows "\<exists>dr an df1. date_range_of df = Inr dr \<and> detect_anomalies df = (Inr an, df1)"
  using assms
  by (cases "date_range_of df"; cases "detect_anomalies df"; cases "fst (detect_anomalies df)")
     (auto simp: analyze_data_def Let_def)



lemma sum_list_replicate_real: "sum_list (replicate n (c::real)) = real n * c"
  by (induction n) (simp_all add: algebra_simps)

lemma sum_sq_dev_replicate: "sum_sq_dev (replicate n c) = 0"
proof (cases "n = 0")
  case True then show ?thesis by (simp add: sum_sq_dev_def)
next
  case False
  then have "mean_of (replicate n c) = c"
    by (simp add: mean_of_def sum_list_replicate_real)
  then show ?thesis
    by (simp add: sum_sq_dev_def sum_list_replicate_real map_replicate_const)
qed

lemma zscore_spec_constant: "zscore_spec ddof (replicate n c) h = 0"
  by (simp add: zscore_spec_def sum_sq_dev_replicate)

lemma date_range_of_ok:
  assumes "column df ''timestamp'' = None \<or> (\<exists>ts. column df ''timestamp'' = Some (TimeCol ts))"
  shows "\<exists>dr. date_range_of df = Inr dr"
  using assms by (auto simp: date_range_of_def)

lemma detect_anomalies_no_flags:
  assumes wf: "wf_frame df"
    and hr: "column df ''heartRate'' = Some (NumCol (map Fin hs))"
    and n: "0 < nrows df"
    and none: "\<forall>h \<in> set hs. \<not> 2 < \<bar>zscore_spec 0 hs h\<bar>"
  shows "detect_anomalies df =
     (Inr (Some \<lparr>count = 0, percentage = 0, threshold = 2, records = []\<rparr>),
      setitem df ''hr_zscore'' (NumCol (map fl_abs (zscore (map Fin hs)))))"
proof -
  let ?z = "map fl_abs (zscore (map Fin hs))"
  let ?keep = "map (\<lambda>v. fl_gt v 2) ?z"
  have lh: "length hs = nrows df" using column_len [OF wf hr] by simp
  have ne: "hs \<noteq> []" using lh n by auto
  have "?keep = map (\<lambda>h. 2 < \<bar>zscore_spec 0 hs h\<bar>) hs" using zscore_fin [OF ne] by simp
  also have "\<dots> = map (\<lambda>h. False) hs" using none by (intro map_cong) auto
  finally have keep: "?keep = map (\<lambda>h. False) hs" .
  have "filter id (map (\<lambda>h. False) hs) = []" by (induction hs) auto
  then have "nrows (boolean_mask ?keep (setitem df ''hr_zscore'' (NumCol ?z))) = 0"
    by (simp only: keep boolean_mask_def) simp
  then show ?thesis
    using hr n by (simp add: detect_anomalies_def Let_def nrows_setitem)
qed

text \<open>
  C6. On a frame with at least one row whose heart rates are all equal (and whose
  timestamp column, if there is one, holds instants), \<open>analyze_data\<close> returns a
  report: the standard deviation is zero, every z-score is undefined and compares
  false with the threshold, so the anomaly count is zero, the percentage zero and
  the record list empty; no error is raised. The witness is 20 records of 70 bpm.
\<close>

theorem analyze_data_constant_heart_rate:
  assumes wf: "wf_frame df"
    and hr: "column df ''heartRate'' = Some (NumCol (replicate (nrows df) (Fin c)))"
    and n: "0 < nrows df"
    and ts: "column df ''timestamp'' = None \<or> (\<exists>ts. column df ''timestamp'' = Some (TimeCol ts))"
  shows "\<exists>r df'. analyze_data df = (Inr r, df')
           \<and> anomalies r = Some \<lparr>count = 0, percentage = 0, threshold = 2, records = []\<rparr>"
proof -
  let ?hs = "replicate (nrows df) c"
  have hr': "column df ''heartRate'' = Some (NumCol (map Fin ?hs))" using hr by simp
  have none: "\<forall>h \<in> set ?hs. \<not> 2 < \<bar>zscore_spec 0 ?hs h\<bar>"
    by (simp add: zscore_spec_constant)
  from date_range_of_ok [OF ts] obtain dr where dr: "date_range_of df = Inr dr" ..
  from analyze_data_report [OF dr detect_anomalies_no_flags [OF wf hr' n none]]
  show ?thesis by blast
qed

theorem analyze_data_constant_heart_rate_witness:
  "\<exists>r df'. analyze_data \<lparr>nrows = 20, cols = [(''heartRate'', NumCol (replicate 20 (Fin 70)))]\<rparr>
             = (Inr r, df')
         \<and> anomalies r = Some \<lparr>count = 0, percentage = 0, threshold = 2, records = []\<rparr>"
proof -
  let ?df = "\<lparr>nrows = 20, cols = [(''heartRate'', NumCol (replicate 20 (Fin 70)))]\<rparr>"
  have wf: "wf_frame ?df" by (simp add: wf_frame_def)
  have hr: "column ?df ''heartRate'' = Some (NumCol (replicate (nrows ?df) (Fin 70)))"
    by (simp add: column_def)
  have n: "0 < nrows ?df" by simp
  have ts: "column ?df ''timestamp'' = None
            \<or> (\<exists>ts. column ?df ''timestamp'' = Some (TimeCol ts))"
    by (simp add: column_def)
  from analyze_data_constant_heart_rate [OF wf hr n ts] show ?thesis .
qed









lemma snd_analyze_data_heartRate:
  assumes "column df ''heartRate'' = Some (NumCol hr)" "column df ''timestamp'' = None"
  shows "snd (analyze_data df) = setitem df ''hr_zscore'' (NumCol (map fl_abs (zscore hr)))"
proof -
  have dr: "date_range_of df = Inr None" using assms(2) by (simp add: date_range_of_def)
  have "snd (detect_anomalies df) = setitem df ''hr_zscore'' (NumCol (map fl_abs (zscore hr)))"
    using assms(1) by (simp add: detect_anomalies_def Let_def split: sum.splits)
  then show ?thesis
    by (cases "detect_anomalies df"; cases "fst (detect_anomalies df)")
       (auto simp: analyze_data_def dr Let_def split: option.splits series.splits)
qed

text \<open>
  C3. \<open>analyze_data\<close> does not leave its argument as it was: on a frame with the one
  column \<open>heartRate\<close> (70 and 72 bpm) the caller's frame has a second column
  \<open>hr_zscore\<close> after the call.
\<close>

theorem analyze_data_adds_hr_zscore_column:
  "map fst (cols (snd (analyze_data
      \<lparr>nrows = 2, cols = [(''heartRate'', NumCol [Fin 70, Fin 72])]\<rparr>)))
   = [''heartRate'', ''hr_zscore'']"
  by (subst snd_analyze_data_heartRate [where hr = "[Fin 70, Fin 72]"])
     (simp_all add: column_def setitem_def)

text \<open>
  C4. On the frame with a numeric \<open>heartRate\<close> column and no rows the call does not
  return a report: the statistics are \<open>NaN\<close>, but the anomaly percentage divides
  by the row count and raises \<open>ZeroDivisionError\<close>.
\<close>

theorem analyze_data_empty_frame_raises:
  "fst (analyze_data \<lparr>nrows = 0, cols = [(''heartRate'', NumCol [])]\<rparr>) = Inl ZeroDivisionError"
  by (simp add: analyze_data_def date_range_of_def column_def detect_anomalies_def Let_def
      zscore_def setitem_def)

section \<open>Activity breakdown\<close>

lemma set_uniques: "set (uniques xs) = set xs"
  by (simp add: uniques_def)

lemma distinct_uniques: "distinct (uniques xs)"
  by (simp add: uniques_def)

lemma value_counts_keys:
  "map fst (value_counts xs)
   = map fst (sort_key (\<lambda>kc. - int (snd kc))
       (map (\<lambda>k. (k, count_list (filter (\<lambda>c. c \<noteq> CNum NaN) xs) k))
         (uniques (filter (\<lambda>c. c \<noteq> CNum NaN) xs))))"
  by (simp add: value_counts_def Let_def)

lemma value_counts_set:
  "set (value_counts xs)
   = (\<lambda>k. (k, count_list (filter (\<lambda>c. c \<noteq> CNum NaN) xs) k)) ` set (filter (\<lambda>c. c \<noteq> CNum NaN) xs)"
  by (simp add: value_counts_def Let_def set_uniques)

lemma distinct_fst_sort_key:
  assumes "distinct (map fst l)"
  shows "distinct (map fst (sort_key f l))"
proof -
  from assms have "distinct l \<and> inj_on fst (set l)" using distinct_map [of fst l] by blast
  then show ?thesis by (simp add: distinct_map)
qed

lemma value_counts_distinct: "distinct (map fst (value_counts xs))"
proof -
  let ?p = "filter (\<lambda>c. c \<noteq> CNum NaN) xs"
  have "distinct (map fst (map (\<lambda>k. (k, count_list ?p k)) (uniques ?p)))"
    by (simp add: comp_def distinct_uniques)
  from distinct_fst_sort_key [OF this] show ?thesis by (simp add: value_counts_def Let_def)
qed

lemma sorted_descending:
  "sorted (map (\<lambda>x. - int (g x)) l) \<Longrightarrow> sorted (rev (map g l))"
  by (induction l) (auto simp: sorted_append)

lemma value_counts_sorted: "sorted (rev (map snd (value_counts xs)))"
proof -
  have "sorted (map (\<lambda>kc. - int (snd kc)) (value_counts xs))"
    by (simp add: value_counts_def Let_def)
  then show ?thesis by (rule sorted_descending)
qed

lemma cstr_present: "filter (\<lambda>c. c \<noteq> CNum NaN) (map CStr acts) = map CStr acts"
  by (induction acts) auto

lemma count_list_cstr: "count_list (map CStr acts) (CStr a) = count_list acts a"
  by (induction acts) auto

lemma analyze_data_breakdown_eq:
  assumes ret: "fst (analyze_data df) = Inr r"
    and act: "column df ''activity'' = Some (ObjCol acts)"
  shows "activity_breakdown r =
     map (\<lambda>kc. \<lparr>activity = fst kc, activity_count = snd kc,
                   activity_percentage = real (snd kc) / real (nrows df) * 100\<rparr>)
       (value_counts (map CStr acts))"
proof -
  from analyze_data_returns [OF ret] obtain dr an df1
    where dr: "date_range_of df = Inr dr" and da: "detect_anomalies df = (Inr an, df1)"
    by blast
  from analyze_data_report [OF dr da] obtain r'
    where r': "analyze_data df = (Inr r', df1)"
      and bd: "activity_breakdown r' =
                 (case column df ''activity'' of
                    None \<Rightarrow> [] | Some a \<Rightarrow> activity_breakdown_of df1 a)"
    by blast
  from r' ret have "r' = r" by simp
  with bd act detect_anomalies_frame(1) [OF da] show ?thesis
    by (simp add: activity_breakdown_of_def case_prod_beta)
qed

lemma example_activity_run:
  "\<exists>r. analyze_data \<lparr>nrows = 3, cols = [(''activity'', ObjCol [''resting'', ''walking'', ''walking''])]\<rparr>
        = (Inr r, \<lparr>nrows = 3, cols = [(''activity'', ObjCol [''resting'', ''walking'', ''walking''])]\<rparr>)"
proof -
  let ?df = "\<lparr>nrows = 3, cols = [(''activity'', ObjCol [''resting'', ''walking'', ''walking''])]\<rparr>"
  have dr: "date_range_of ?df = Inr None" by (simp add: date_range_of_def column_def)
  have da: "detect_anomalies ?df = (Inr None, ?df)" by (simp add: detect_anomalies_def column_def)
  from analyze_data_report [OF dr da] show ?thesis by blast
qed

lemma example_value_counts:
  "value_counts (map CStr [''resting'', ''walking'', ''walking''])
   = [(CStr ''walking'', 2), (CStr ''resting'', 1)]"
  by (simp add: value_counts_def uniques_def)

text \<open>
  C1, as the code has it. For a frame with at least one row and an \<open>activity\<close> column
  of labels, the activity breakdown of a report that \<open>analyze_data\<close> returns lists
  every distinct label once, each with the number of rows that carry it and that
  number as a percentage of the row count, in the order of \<open>value_counts()\<close>: the
  counts never increase along the list (most frequent first).
\<close>

theorem analyze_data_activity_breakdown:
  assumes ret: "fst (analyze_data df) = Inr r"
    and act: "column df ''activity'' = Some (ObjCol acts)"
    and n: "0 < nrows df"
  shows "distinct (map activity (activity_breakdown r))
       \<and> set (map activity (activity_breakdown r)) = CStr ` set acts
       \<and> (\<forall>e \<in> set (activity_breakdown r). \<exists>a \<in> set acts.
             activity e = CStr a \<and> activity_count e = count_list acts a
           \<and> activity_percentage e = real (count_list acts a) / real (nrows df) * 100)
       \<and> sorted (rev (map activity_count (activity_breakdown r)))"
proof -
  let ?vc = "value_counts (map CStr acts)"
  note bd = analyze_data_breakdown_eq [OF ret act]
  have keys: "map activity (activity_breakdown r) = map fst ?vc"
    and counts: "map activity_count (activity_breakdown r) = map snd ?vc"
    by (simp_all add: bd comp_def)
  have vs: "set ?vc = (\<lambda>a. (CStr a, count_list acts a)) ` set acts"
    by (auto simp: value_counts_set cstr_present count_list_cstr)
  have d: "distinct (map activity (activity_breakdown r))"
    unfolding keys by (rule value_counts_distinct)
  have s: "set (map activity (activity_breakdown r)) = CStr ` set acts"
    unfolding keys by (simp add: vs image_image)
  have e: "\<forall>e \<in> set (activity_breakdown r). \<exists>a \<in> set acts.
             activity e = CStr a \<and> activity_count e = count_list acts a
           \<and> activity_percentage e = real (count_list acts a) / real (nrows df) * 100"
    unfolding bd by (auto simp: vs)
  have o: "sorted (rev (map activity_count (activity_breakdown r)))"
    unfolding counts by (rule value_counts_sorted)
  from d s e o show ?thesis by blast
qed

theorem analyze_data_activity_breakdown_witness:
  "\<exists>r. fst (analyze_data
          \<lparr>nrows = 3, cols = [(''activity'', ObjCol [''resting'', ''walking'', ''walking''])]\<rparr>) = Inr r
       \<and> distinct (map activity (activity_breakdown r))
       \<and> set (map activity (activity_breakdown r)) = {CStr ''resting'', CStr ''walking''}
       \<and> sorted (rev (map activity_count (activity_breakdown r)))"
proof -
  let ?df = "\<lparr>nrows = 3, cols = [(''activity'', ObjCol [''resting'', ''walking'', ''walking''])]\<rparr>"
  from example_activity_run obtain r where ret: "fst (analyze_data ?df) = Inr r" by auto
  have act: "column ?df ''activity'' = Some (ObjCol [''resting'', ''walking'', ''walking''])"
    by (simp add: column_def)
  have n: "0 < nrows ?df" by simp
  from analyze_data_activity_breakdown [OF ret act n] ret show ?thesis by auto
qed

text \<open>
  The order is not that of first appearance: in the batch resting, walking, walking the
  label met first is \<open>resting\<close>, and the breakdown starts with \<open>walking\<close>.
\<close>

theorem analyze_data_activity_order_counterexample:
  "map_option (map activity \<circ> activity_breakdown) (report_of (analyze_data
       \<lparr>nrows = 3, cols = [(''activity'', ObjCol [''resting'', ''walking'', ''walking''])]\<rparr>))
     = Some [CStr ''walking'', CStr ''resting'']
   \<and> map CStr (uniques [''resting'', ''walking'', ''walking'']) = [CStr ''resting'', CStr ''walking'']"
proof -
  let ?df = "\<lparr>nrows = 3, cols = [(''activity'', ObjCol [''resting'', ''walking'', ''walking''])]\<rparr>"
  from example_activity_run obtain r where run: "analyze_data ?df = (Inr r, ?df)" by auto
  then have ret: "fst (analyze_data ?df) = Inr r" by simp
  have act: "column ?df ''activity'' = Some (ObjCol [''resting'', ''walking'', ''walking''])"
    by (simp add: column_def)
  have "map activity (activity_breakdown r) = [CStr ''walking'', CStr ''resting'']"
    using analyze_data_breakdown_eq [OF ret act] example_value_counts by simp
  with run show ?thesis by (simp add: report_of_def uniques_def)
qed

section \<open>Generators\<close>

lemma generate_daily_pattern_ignores_state:
  "generate_daily_pattern R epoch_seconds isoformat date num_records base_hr noise_level g
   = generate_daily_pattern R epoch_seconds isoformat date num_records base_hr noise_level g'"
  by (simp add: generate_daily_pattern_def)

text \<open>
  C2. The episode mode is not determined by the start timestamp and the parameters:
  \<open>generate_tpp_episode\<close> never seeds the generator, so two calls with the same
  start time and duration, made in different generator states, give different heart
  rates in the peak phase. The daily mode seeds the generator from the start
  timestamp and does not depend on the state at the call.
\<close>

theorem generate_tpp_episode_depends_on_state:
  "map (\<lambda>r. r ''heartRate'')
     (fst (generate_tpp_episode counter_random isoformat start_time 10 0))
     = [Some (PInt 60), Some (PInt 35)]
   \<and> map (\<lambda>r. r ''heartRate'')
     (fst (generate_tpp_episode counter_random isoformat start_time 10 1))
     = [Some (PInt 60), Some (PInt 36)]"
  by (simp add: generate_tpp_episode_def episode_record_def counter_random_def Let_def
      upt_rec py_int_def)

lemma validate_generated:
  assumes "to_datetime (PStr s) = Inr d" "40 \<le> h" "h \<le> 200" "10 \<le> v"
    and "act \<in> set VALID_ACTIVITIES"
  shows "validate_record to_datetime
           [''timestamp'' \<mapsto> PStr s, ''heartRate'' \<mapsto> PInt h, ''hrv'' \<mapsto> PInt v,
            ''activity'' \<mapsto> PStr act, ''device'' \<mapsto> dev] = Inr (True, None)"
  using assms
  by (simp add: validate_record_def REQUIRED_FIELDS_def getitem_def bind_err_def
      temperature_invalid_def)

lemma daily_regime_activity:
  assumes "choice_in_options R" "daily_regime R hour base_hr g = ((act, hr, hrv), g')"
  shows "act \<in> set VALID_ACTIVITIES"
proof -
  have c3: "fst (choice R [''walking'', ''resting'', ''exercise''] p g) \<in>
              {''walking'', ''resting'', ''exercise''}" for p g
    using assms(1) [unfolded choice_in_options_def, rule_format,
        of "[''walking'', ''resting'', ''exercise'']" p g] by simp
  have c2: "fst (choice R [''walking'', ''resting''] p g) \<in> {''walking'', ''resting''}" for p g
    using assms(1) [unfolded choice_in_options_def, rule_format,
        of "[''walking'', ''resting'']" p g] by simp
  show ?thesis
    using assms(2) c3 [of "[5 / 10, 4 / 10, 1 / 10]" g] c2 [of "[6 / 10, 4 / 10]" g]
    by (auto simp: daily_regime_def VALID_ACTIVITIES_def split: if_splits prod.splits)
qed

lemma daily_record_valid:
  assumes c: "choice_in_options R"
    and p: "\<forall>t. \<exists>d. to_datetime (PStr (isoformat t)) = Inr d"
    and g: "daily_record R isoformat date base_hr noise_level i g = Inr (r, g')"
  shows "validate_record to_datetime r = Inr (True, None)
       \<and> (\<exists>h. r ''heartRate'' = Some (PInt h) \<and> 40 \<le> h \<and> h \<le> 200)
       \<and> (\<exists>v. r ''hrv'' = Some (PInt v) \<and> 10 \<le> v)
       \<and> (\<exists>a \<in> set VALID_ACTIVITIES. r ''activity'' = Some (PStr a))
       \<and> (\<exists>t d. r ''timestamp'' = Some (PStr (isoformat t))
                 \<and> to_datetime (PStr (isoformat t)) = Inr d)"
proof -
  let ?ts = "date + 1800 * i"
  obtain act hr hrv g1 where reg: "daily_regime R (hour_of ?ts) base_hr g = ((act, hr, hrv), g1)"
    by (metis prod.exhaust)
  from g reg obtain noise where
    r: "r = [''timestamp'' \<mapsto> PStr (isoformat ?ts),
             ''heartRate'' \<mapsto> PInt (max 40 (min 200 (py_int (hr + noise)))),
             ''hrv'' \<mapsto> PInt (max 10 (py_int hrv)),
             ''activity'' \<mapsto> PStr act,
             ''device'' \<mapsto> PStr ''Synthetic Generator'']"
    by (auto simp: daily_record_def Let_def split: sum.splits prod.splits)
  have a: "act \<in> set VALID_ACTIVITIES" by (rule daily_regime_activity [OF c reg])
  from p obtain d where d: "to_datetime (PStr (isoformat ?ts)) = Inr d" by blast
  have v: "validate_record to_datetime r = Inr (True, None)"
    unfolding r using d a by (intro validate_generated) simp_all
  have f: "r ''heartRate'' = Some (PInt (max 40 (min 200 (py_int (hr + noise)))))"
      "r ''hrv'' = Some (PInt (max 10 (py_int hrv)))"
      "r ''activity'' = Some (PStr act)"
      "r ''timestamp'' = Some (PStr (isoformat ?ts))"
    by (simp_all add: r)
  from v f a d show ?thesis by auto
qed

lemma daily_loop_members:
  assumes "daily_loop R isoformat date base_hr noise_level idx g = Inr (rs, g')" "r \<in> set rs"
  shows "\<exists>i g0 g1. daily_record R isoformat date base_hr noise_level i g0 = Inr (r, g1)"
  using assms
proof (induction idx arbitrary: g rs)
  case Nil then show ?case by simp
next
  case (Cons i idx)
  from Cons.prems(1) obtain r0 g1 rs0 where
    a: "daily_record R isoformat date base_hr noise_level i g = Inr (r0, g1)"
    and b: "daily_loop R isoformat date base_hr noise_level idx g1 = Inr (rs0, g')"
    and c: "rs = r0 # rs0"
    by (auto split: sum.splits prod.splits)
  show ?case
  proof (cases "r = r0")
    case True with a show ?thesis by blast
  next
    case False
    with c Cons.prems(2) have "r \<in> set rs0" by simp
    from Cons.IH [OF b this] show ?thesis .
  qed
qed

lemma daily_loop_succeeds:
  assumes "0 \<le> noise_level"
  shows "\<exists>rs g'. daily_loop R isoformat date base_hr noise_level idx g = Inr (rs, g')
                 \<and> length rs = length idx"
proof (induction idx arbitrary: g)
  case Nil show ?case by simp
next
  case (Cons i idx)
  obtain act hr hrv g0 where
    reg: "daily_regime R (hour_of (date + 1800 * i)) base_hr g = ((act, hr, hrv), g0)"
    by (metis prod.exhaust)
  obtain noise g2 where n: "normal R 0 noise_level g0 = (noise, g2)"
    by (metis prod.exhaust)
  from assms reg n obtain r g1 where
    a: "daily_record R isoformat date base_hr noise_level i g = Inr (r, g1)"
    by (simp add: daily_record_def np_normal_def Let_def)
  from Cons [of g1] obtain rs g' where
    "daily_loop R isoformat date base_hr noise_level idx g1 = Inr (rs, g')" "length rs = length idx"
    by blast
  with a show ?case by simp
qed

lemma counter_random_choice: "choice_in_options counter_random"
  by (simp add: choice_in_options_def counter_random_def)

text \<open>
  C10. Every record that \<open>generate_daily_pattern\<close> produces, for any start date,
  record count, base heart rate and noise level, is valid for \<open>validate_record\<close>:
  its heart rate is an integer between 40 and 200, its HRV an integer of at least 10,
  its activity one of the four valid labels and its timestamp the ISO text of an
  instant. Two facts about the libraries are assumed: \<open>np.random.choice\<close> returns
  one of its options, and \<open>pd.to_datetime\<close> parses what \<open>datetime.isoformat\<close>
  writes. With a noise level that is not negative the call does return its records
  (\<open>daily_loop_succeeds\<close>).
\<close>

theorem generate_daily_pattern_records_valid:
  assumes c: "choice_in_options R"
    and p: "\<forall>t. \<exists>d. to_datetime (PStr (isoformat t)) = Inr d"
    and g: "generate_daily_pattern R epoch_seconds isoformat date num_records base_hr noise_level g
              = Inr (recs, g')"
    and r: "r \<in> set recs"
  shows "validate_record to_datetime r = Inr (True, None)
       \<and> (\<exists>h. r ''heartRate'' = Some (PInt h) \<and> 40 \<le> h \<and> h \<le> 200)
       \<and> (\<exists>v. r ''hrv'' = Some (PInt v) \<and> 10 \<le> v)
       \<and> (\<exists>a \<in> set VALID_ACTIVITIES. r ''activity'' = Some (PStr a))
       \<and> (\<exists>t d. r ''timestamp'' = Some (PStr (isoformat t))
                 \<and> to_datetime (PStr (isoformat t)) = Inr d)"
proof -
  from daily_loop_members [OF g [unfolded generate_daily_pattern_def] r]
  obtain i g0 g1 where "daily_record R isoformat date base_hr noise_level i g0 = Inr (r, g1)"
    by blast
  from daily_record_valid [OF c p this] show ?thesis .
qed

theorem generate_daily_pattern_records_valid_witness:
  "\<exists>recs g'.
     generate_daily_pattern counter_random (\<lambda>d. d)
       (\<lambda>t. if t = 0 then ''1970-01-01T00:00:00'' else ''1970-01-01T00:30:00'') 0 2 70 5 0
       = Inr (recs, g')
     \<and> length recs = 2
     \<and> list_all (\<lambda>r. validate_record
            (\<lambda>v. if v = PStr ''1970-01-01T00:00:00'' then Inr 0
                 else if v = PStr ''1970-01-01T00:30:00'' then Inr 1800
                 else Inl ''unparsable'') r = Inr (True, None)) recs"
proof -
  let ?iso = "\<lambda>t::int. if t = 0 then ''1970-01-01T00:00:00'' else ''1970-01-01T00:30:00''"
  let ?td = "\<lambda>v. if v = PStr ''1970-01-01T00:00:00'' then Inr (0::int)
                 else if v = PStr ''1970-01-01T00:30:00'' then Inr 1800
                 else Inl ''unparsable''"
  have p: "\<forall>t. \<exists>d. ?td (PStr (?iso t)) = Inr d" by simp
  from daily_loop_succeeds [of 5 counter_random ?iso 0 70 "map int [0..<nat 2]" "seed counter_random ((\<lambda>d. d) 0 mod 1000)"]
  obtain recs g' where
    gen: "generate_daily_pattern counter_random (\<lambda>d. d) ?iso 0 2 70 5 0 = Inr (recs, g')"
    and len: "length recs = 2"
    by (auto simp: generate_daily_pattern_def)
  have "validate_record ?td r = Inr (True, None)" if "r \<in> set recs" for r
    using generate_daily_pattern_records_valid [OF counter_random_choice p gen that] by blast
  then have "list_all (\<lambda>r. validate_record ?td r = Inr (True, None)) recs"
    by (simp add: list_all_iff)
  with gen len show ?thesis by blast
qed

end
